theory Spec2Isabelle
  imports Main "HOL-Library.Word" "HOL-Library.Monad_Syntax"
begin

unbundle bit_operations_syntax

section \<open>The example key manager of gin-contrib-signedauth\<close>

text \<open>
  The development embeds \<^verbatim>\<open>example/mgr.go\<close>: the type \<^verbatim>\<open>StrictSHA1Manager\<close> and its
  two methods \<^verbatim>\<open>CheckHeader\<close> and \<^verbatim>\<open>Authorize\<close>. \<^verbatim>\<open>CheckHeader\<close> calls into Go's
  standard library (\<^verbatim>\<open>crypto/md5\<close>, \<^verbatim>\<open>encoding/hex\<close>, \<^verbatim>\<open>time\<close>, \<^verbatim>\<open>io/ioutil\<close>,
  \<^verbatim>\<open>net/http\<close>); the parts of the library it reaches are modelled first, as executable
  functions, then the two methods are translated line by line.

  Go strings and byte slices are sequences of bytes. A Go \<^verbatim>\<open>string\<close> is a \<^typ>\<open>string\<close>
  (a list of 8-bit characters), a \<^verbatim>\<open>[]byte\<close> is a list of 8-bit words.
\<close>

type_synonym byte = "8 word"
type_synonym uint32 = "32 word"

definition newline :: string where
  "newline = [CHR 0x0A]"

subsection \<open>crypto/md5\<close>

text \<open>
  \<^verbatim>\<open>hash := md5.New(); hash.Write(body); hash.Sum(nil)\<close> is the MD5 digest of RFC 1321:
  the message is padded with \<^verbatim>\<open>0x80\<close>, zeros up to 56 modulo 64 bytes and the bit length
  as a little-endian 64-bit number; every 64-byte block is decoded into sixteen
  little-endian 32-bit words and run through 64 steps; the four state words are
  written out little-endian.
\<close>

definition rotl :: "uint32 \<Rightarrow> nat \<Rightarrow> uint32" where
  "rotl x s = push_bit s x OR drop_bit (32 - s) x"

definition md5_K :: "uint32 list" where
  "md5_K = [
    0xd76aa478, 0xe8c7b756, 0x242070db, 0xc1bdceee, 0xf57c0faf, 0x4787c62a, 0xa8304613, 0xfd469501,
    0x698098d8, 0x8b44f7af, 0xffff5bb1, 0x895cd7be, 0x6b901122, 0xfd987193, 0xa679438e, 0x49b40821,
    0xf61e2562, 0xc040b340, 0x265e5a51, 0xe9b6c7aa, 0xd62f105d, 0x02441453, 0xd8a1e681, 0xe7d3fbc8,
    0x21e1cde6, 0xc33707d6, 0xf4d50d87, 0x455a14ed, 0xa9e3e905, 0xfcefa3f8, 0x676f02d9, 0x8d2a4c8a,
    0xfffa3942, 0x8771f681, 0x6d9d6122, 0xfde5380c, 0xa4beea44, 0x4bdecfa9, 0xf6bb4b60, 0xbebfbc70,
    0x289b7ec6, 0xeaa127fa, 0xd4ef3085, 0x04881d05, 0xd9d4d039, 0xe6db99e5, 0x1fa27cf8, 0xc4ac5665,
    0xf4292244, 0x432aff97, 0xab9423a7, 0xfc93a039, 0x655b59c3, 0x8f0ccc92, 0xffeff47d, 0x85845dd1,
    0x6fa87e4f, 0xfe2ce6e0, 0xa3014314, 0x4e0811a1, 0xf7537e82, 0xbd3af235, 0x2ad7d2bb, 0xeb86d391]"

definition md5_S :: "nat list" where
  "md5_S = [7, 12, 17, 22, 7, 12, 17, 22, 7, 12, 17, 22, 7, 12, 17, 22,
            5, 9, 14, 20, 5, 9, 14, 20, 5, 9, 14, 20, 5, 9, 14, 20,
            4, 11, 16, 23, 4, 11, 16, 23, 4, 11, 16, 23, 4, 11, 16, 23,
            6, 10, 15, 21, 6, 10, 15, 21, 6, 10, 15, 21, 6, 10, 15, 21]"

definition md5_f :: "nat \<Rightarrow> uint32 \<Rightarrow> uint32 \<Rightarrow> uint32 \<Rightarrow> uint32" where
  "md5_f i b c d =
     (if i < 16 then (b AND c) OR (NOT b AND d)
      else if i < 32 then (b AND d) OR (c AND NOT d)
      else if i < 48 then b XOR c XOR d
      else c XOR (b OR NOT d))"

definition md5_g :: "nat \<Rightarrow> nat" where
  "md5_g i =
     (if i < 16 then i
      else if i < 32 then (5 * i + 1) mod 16
      else if i < 48 then (3 * i + 5) mod 16
      else (7 * i) mod 16)"

type_synonym md5_state = "uint32 \<times> uint32 \<times> uint32 \<times> uint32"

fun md5_step :: "uint32 list \<Rightarrow> md5_state \<Rightarrow> nat \<Rightarrow> md5_state" where
  "md5_step X (a, b, c, d) i =
     (d, b + rotl (a + md5_f i b c d + md5_K ! i + X ! md5_g i) (md5_S ! i), b, c)"

fun md5_add :: "md5_state \<Rightarrow> md5_state \<Rightarrow> md5_state" where
  "md5_add (a, b, c, d) (a', b', c', d') = (a + a', b + b', c + c', d + d')"

definition le32 :: "byte list \<Rightarrow> uint32" where
  "le32 bs = foldr (\<lambda>b w. ucast b OR push_bit 8 w) bs 0"

definition md5_words :: "byte list \<Rightarrow> uint32 list" where
  "md5_words blk = map (\<lambda>j. le32 (take 4 (drop (4 * j) blk))) [0..<16]"

definition md5_block :: "md5_state \<Rightarrow> byte list \<Rightarrow> md5_state" where
  "md5_block st blk = md5_add st (foldl (md5_step (md5_words blk)) st [0..<64])"

definition le_bytes :: "nat \<Rightarrow> 'a::len word \<Rightarrow> byte list" where
  "le_bytes n w = map (\<lambda>k. ucast (drop_bit (8 * k) w)) [0..<n]"

definition md5_pad :: "byte list \<Rightarrow> byte list" where
  "md5_pad bs = bs @ [0x80] @ replicate ((119 - length bs mod 64) mod 64) 0
                  @ le_bytes 8 (word_of_nat (8 * length bs) :: 64 word)"

definition md5_blocks :: "byte list \<Rightarrow> byte list list" where
  "md5_blocks bs = map (\<lambda>j. take 64 (drop (64 * j) bs)) [0..<length bs div 64]"

definition md5_init :: md5_state where
  "md5_init = (0x67452301, 0xefcdab89, 0x98badcfe, 0x10325476)"

fun md5_out :: "md5_state \<Rightarrow> byte list" where
  "md5_out (a, b, c, d) = le_bytes 4 a @ le_bytes 4 b @ le_bytes 4 c @ le_bytes 4 d"

definition md5_Sum :: "byte list \<Rightarrow> byte list" where
  "md5_Sum bs = md5_out (foldl md5_block md5_init (md5_blocks (md5_pad bs)))"

subsection \<open>encoding/hex\<close>

text \<open>
  \<^verbatim>\<open>hex.EncodeToString\<close> writes every byte as two characters of
  \<^verbatim>\<open>"0123456789abcdef"\<close>: the high nibble, then the low nibble.
\<close>

definition hextable :: string where
  "hextable = ''0123456789abcdef''"

definition hex_EncodeToString :: "byte list \<Rightarrow> string" where
  "hex_EncodeToString src =
     concat (map (\<lambda>v. [hextable ! unat (drop_bit 4 v), hextable ! unat (v AND 0x0f)]) src)"

subsection \<open>time\<close>

text \<open>
  A \<^verbatim>\<open>time.Time\<close> is an instant, here the number of nanoseconds since the Unix epoch; a
  \<^verbatim>\<open>time.Duration\<close> is a signed 64-bit count of nanoseconds. \<^verbatim>\<open>t.Sub(u)\<close> saturates at
  the least and the greatest duration, and \<^verbatim>\<open>time.Since(t)\<close> is \<^verbatim>\<open>time.Now().Sub(t)\<close>; the
  reading of the clock is a parameter \<open>now\<close> of the model.
\<close>

type_synonym Time = int
type_synonym Duration = int

definition Nanosecond :: Duration where
  "Nanosecond = 1"

definition Second :: Duration where
  "Second = 1000000000 * Nanosecond"

definition Minute :: Duration where
  "Minute = 60 * Second"

definition minDuration :: Duration where
  "minDuration = - (2 ^ 63)"

definition maxDuration :: Duration where
  "maxDuration = 2 ^ 63 - 1"

definition time_Sub :: "Time \<Rightarrow> Time \<Rightarrow> Duration" where
  "time_Sub t u =
     (let d = t - u in
      if d < minDuration then minDuration
      else if maxDuration < d then maxDuration
      else d)"

definition time_Since :: "Time \<Rightarrow> Time \<Rightarrow> Duration" where
  "time_Since now t = time_Sub now t"

text \<open>
  \<^verbatim>\<open>time.Parse\<close> is modelled for the one layout the manager passes,
  \<^verbatim>\<open>"2006-01-02T15:04:05.000Z"\<close>. The library cuts this layout into the chunks
  year (four digits), \<^verbatim>\<open>-\<close>, month (two digits), \<^verbatim>\<open>-\<close>, day (two digits), \<^verbatim>\<open>T\<close>,
  hour (one or two digits), \<^verbatim>\<open>:\<close>, minute (two digits), \<^verbatim>\<open>:\<close>, second (two digits),
  a fraction (a period or a comma and three characters that \<^verbatim>\<open>atoi\<close> converts to a number
  that is not negative) and the literal \<^verbatim>\<open>Z\<close>. The value must match the chunks in this
  order with no text left over, month, hour, minute and second must be in range, and the
  day must exist in its month. The result is the instant in UTC. The functions follow
  the library's \<^verbatim>\<open>time/format.go\<close> and keep its names; the overflow checks of
  \<^verbatim>\<open>leadingInt\<close> are left out, since they cannot fire on the four characters at most that
  it is given here. The properties below depend only on whether a value parses and on
  the instant it parses to.
\<close>

definition isDigit :: "string \<Rightarrow> nat \<Rightarrow> bool" where
  "isDigit s i =
     (i < length s \<and> 48 \<le> (of_char (s ! i) :: nat) \<and> (of_char (s ! i) :: nat) \<le> 57)"

definition digit :: "char \<Rightarrow> int" where
  "digit c = int (of_char c) - 48"

definition getnum :: "string \<Rightarrow> bool \<Rightarrow> (int \<times> string) option" where
  "getnum s fixed =
     (if \<not> isDigit s 0 then None
      else if \<not> isDigit s 1 then (if fixed then None else Some (digit (s ! 0), drop 1 s))
      else Some (digit (s ! 0) * 10 + digit (s ! 1), drop 2 s))"

fun leadingInt :: "int \<Rightarrow> string \<Rightarrow> int \<times> string" where
  "leadingInt x [] = (x, [])"
| "leadingInt x (c # cs) =
     (if isDigit [c] 0 then leadingInt (x * 10 + digit c) cs else (x, c # cs))"

definition atoi :: "string \<Rightarrow> int option" where
  "atoi s =
     (let signed = (s \<noteq> [] \<and> (hd s = CHR ''-'' \<or> hd s = CHR ''+''));
          neg = (signed \<and> hd s = CHR ''-'');
          (q, rem) = leadingInt 0 (if signed then tl s else s)
      in if rem \<noteq> [] then None else Some (if neg then - q else q))"

fun skip :: "string \<Rightarrow> string \<Rightarrow> string option" where
  "skip v [] = Some v"
| "skip [] (p # ps) = None"
| "skip (c # cs) (p # ps) = (if c = p then skip cs ps else None)"

definition isLeap :: "int \<Rightarrow> bool" where
  "isLeap year = (year mod 4 = 0 \<and> (year mod 100 \<noteq> 0 \<or> year mod 400 = 0))"

definition daysBefore :: "int list" where
  "daysBefore = [0, 31, 59, 90, 120, 151, 181, 212, 243, 273, 304, 334, 365]"

definition daysIn :: "int \<Rightarrow> int \<Rightarrow> int" where
  "daysIn m year =
     (if m = 2 \<and> isLeap year then 29
      else daysBefore ! nat m - daysBefore ! nat (m - 1))"

definition daysSinceEpoch :: "int \<Rightarrow> int" where
  "daysSinceEpoch year =
     (let y = year - 1 in 365 * y + y div 4 - y div 100 + y div 400 - 719162)"

definition time_Date :: "int \<Rightarrow> int \<Rightarrow> int \<Rightarrow> int \<Rightarrow> int \<Rightarrow> int \<Rightarrow> int \<Rightarrow> Time" where
  "time_Date year month day hour minute sec nsec =
     (let d = daysSinceEpoch year + daysBefore ! nat (month - 1)
                + (if isLeap year \<and> 3 \<le> month then 1 else 0) + (day - 1)
      in (d * 86400 + hour * 3600 + minute * 60 + sec) * Second + nsec * Nanosecond)"

definition parseNanoseconds :: "string \<Rightarrow> nat \<Rightarrow> int option" where
  "parseNanoseconds v nbytes =
     (if \<not> (v ! 0 = CHR ''.'' \<or> v ! 0 = CHR '','') then None
      else do {
        ns \<leftarrow> atoi (take (nbytes - 1) (drop 1 v));
        if ns < 0 then None else Some (ns * 10 ^ (10 - nbytes))
      })"

definition time_Parse :: "string \<Rightarrow> Time option" where
  "time_Parse v0 = do {
     (year, v1) \<leftarrow> (if length v0 < 4 \<or> \<not> isDigit v0 0 then None
                     else map_option (\<lambda>y. (y, drop 4 v0)) (atoi (take 4 v0)));
     v2 \<leftarrow> skip v1 ''-'';
     (month, v3) \<leftarrow> getnum v2 True;
     _ \<leftarrow> (if month \<le> 0 \<or> 12 < month then None else Some ());
     v4 \<leftarrow> skip v3 ''-'';
     (day, v5) \<leftarrow> getnum v4 True;
     v6 \<leftarrow> skip v5 ''T'';
     (hour, v7) \<leftarrow> getnum v6 False;
     _ \<leftarrow> (if hour < 0 \<or> 24 \<le> hour then None else Some ());
     v8 \<leftarrow> skip v7 '':'';
     (minute, v9) \<leftarrow> getnum v8 True;
     _ \<leftarrow> (if minute < 0 \<or> 60 \<le> minute then None else Some ());
     v10 \<leftarrow> skip v9 '':'';
     (sec, v11) \<leftarrow> getnum v10 True;
     _ \<leftarrow> (if sec < 0 \<or> 60 \<le> sec then None else Some ());
     nsec \<leftarrow> (if length v11 < 4 then None else parseNanoseconds v11 4);
     v12 \<leftarrow> skip (drop 4 v11) ''Z'';
     _ \<leftarrow> (if v12 \<noteq> [] then None else Some ());
     if day < 1 \<or> daysIn month year < day then None
     else Some (time_Date year month day hour minute sec nsec)
   }"

subsection \<open>net/http and io/ioutil\<close>

text \<open>
  The fields of \<^verbatim>\<open>http.Request\<close> that the manager reads are \<^verbatim>\<open>Method\<close>, \<^verbatim>\<open>Header\<close>,
  \<^verbatim>\<open>Body\<close> and \<^verbatim>\<open>ContentLength\<close>; \<^verbatim>\<open>URL\<close> and \<^verbatim>\<open>Host\<close> stand for the fields it does not
  read. A \<^verbatim>\<open>Header\<close> maps a canonical key to its values, and \<^verbatim>\<open>Get\<close> returns the first
  value of the key or the empty string (\<^verbatim>\<open>"Date"\<close> is already in canonical form).
  \<^verbatim>\<open>Body\<close> is an interface value that may be nil. A reader either delivers its bytes
  up to the end of the stream, or it delivers some bytes and then fails;
  \<^verbatim>\<open>ioutil.ReadAll\<close> returns the bytes read and the error, if any. \<^verbatim>\<open>ContentLength\<close> is
  a signed 64-bit integer (-1 when the length is unknown) that the manager only compares
  with zero.
\<close>

type_synonym Header = "string \<rightharpoonup> string list"

definition Header_Get :: "Header \<Rightarrow> string \<Rightarrow> string" where
  "Header_Get h key =
     (case h key of
        None \<Rightarrow> ''''
      | Some [] \<Rightarrow> ''''
      | Some (v # vs) \<Rightarrow> v)"

datatype ReadCloser =
    Reader "byte list"
  | FailingReader "byte list" string

fun ioutil_ReadAll :: "ReadCloser \<Rightarrow> byte list \<times> string option" where
  "ioutil_ReadAll (Reader bs) = (bs, None)"
| "ioutil_ReadAll (FailingReader bs e) = (bs, Some e)"

record Request =
  Method :: string
  URL :: string
  Host :: string
  Header :: Header
  Body :: "ReadCloser option"
  ContentLength :: int

subsection \<open>The signedauth package\<close>

text \<open>
  Modelled from the spec: the declaration of \<^verbatim>\<open>signedauth.AuthErr\<close> is in the root package
  of the repository, which the example only imports. The spec describes an AuthError as
  a pair of a status code and a cause, and the manager builds it positionally from an
  integer and \<^verbatim>\<open>errors.New(message)\<close>; the cause is modelled by its message. The embedded
  \<^verbatim>\<open>*signedauth.HMACManager\<close> of the manager is declared there too; neither method
  reads it, so its type is left unspecified.
\<close>

record AuthErr =
  Status :: int
  Err :: string

typedecl HMACManager

record StrictSHA1Manager =
  Secret :: string
  HMACManager :: "HMACManager option"

subsection \<open>CheckHeader\<close>

text \<open>
  \<^verbatim>\<open>CheckHeader\<close> returns a secret, the data to sign and a pointer to an \<^verbatim>\<open>AuthErr\<close>
  that is nil on success. The model returns this triple, or \<open>None\<close> where the Go code
  would panic (reading a nil \<^verbatim>\<open>Body\<close>). Next to the result it returns the log of the
  calls the run made, in order, so that statements about what a run does not compute
  (a digest, a look at the access key) can be made: parsing the date, reading the
  clock, comparing the access key, reading the body and computing the MD5 digest each
  append one entry.
\<close>

datatype call =
    TimeParse string
  | TimeSince Time
  | KeyCheck string
  | ReadAll
  | MD5 "byte list"

type_synonym ret = "string \<times> string \<times> AuthErr option"

definition CheckHeader_run ::
  "StrictSHA1Manager \<Rightarrow> string \<Rightarrow> Request \<Rightarrow> Time \<Rightarrow> ret option \<times> call list" where
  "CheckHeader_run m access req now =
     (if ContentLength req \<noteq> 0 \<and> Body req = None then
        (Some ('''', '''', Some \<lparr>Status = 400, Err = ''received a forged packet''\<rparr>), [])
      else
        let dateHeader = Header_Get (Header req) ''Date'' in
        if dateHeader = '''' then
          (Some ('''', '''', Some \<lparr>Status = 406, Err = ''no Date header provided''\<rparr>), [])
        else
          let log1 = [TimeParse dateHeader] in
          case time_Parse dateHeader of
            None \<Rightarrow>
              (Some ('''', '''', Some \<lparr>Status = 408, Err = ''could not parse date''\<rparr>), log1)
          | Some date \<Rightarrow>
              let log2 = log1 @ [TimeSince date] in
              if Minute * 15 < time_Since now date then
                (Some ('''', '''', Some \<lparr>Status = 410, Err = ''request is too old''\<rparr>), log2)
              else
                let log3 = log2 @ [KeyCheck access] in
                if access = ''my_access_key'' then
                  let serializedData = Method req @ newline in
                  if ContentLength req \<noteq> 0 then
                    let log4 = log3 @ [ReadAll] in
                    case Body req of
                      None \<Rightarrow> (None, log4)
                    | Some rc \<Rightarrow>
                        (case ioutil_ReadAll rc of
                           (body, Some err) \<Rightarrow>
                             (Some ('''', '''',
                                Some \<lparr>Status = 402, Err = ''could not read the body''\<rparr>), log4)
                         | (body, None) \<Rightarrow>
                             (Some (Secret m,
                                serializedData @ hex_EncodeToString (md5_Sum body) @ newline
                                  @ Header_Get (Header req) ''Date'',
                                None), log4 @ [MD5 body]))
                  else
                    (Some (Secret m,
                       serializedData @ newline @ Header_Get (Header req) ''Date'',
                       None), log3)
                else
                  (Some ('''', '''', Some \<lparr>Status = 418, Err = ''you are a teapot''\<rparr>), log3))"

definition CheckHeader :: "StrictSHA1Manager \<Rightarrow> string \<Rightarrow> Request \<Rightarrow> Time \<Rightarrow> ret option" where
  "CheckHeader m access req now = fst (CheckHeader_run m access req now)"

definition CheckHeader_calls :: "StrictSHA1Manager \<Rightarrow> string \<Rightarrow> Request \<Rightarrow> Time \<Rightarrow> call list" where
  "CheckHeader_calls m access req now = snd (CheckHeader_run m access req now)"

subsection \<open>The request after the call\<close>

text \<open>
  \<^verbatim>\<open>ioutil.ReadAll\<close> consumes the body: a reader that has delivered its bytes delivers
  none when it is read again, and a reader that failed is taken to fail again. A run
  that reads the body leaves the request with the drained body; every other run leaves
  the request as it was.
\<close>

fun drain :: "ReadCloser \<Rightarrow> ReadCloser" where
  "drain (Reader bs) = Reader []"
| "drain (FailingReader bs e) = FailingReader [] e"

definition CheckHeader_leaves ::
  "StrictSHA1Manager \<Rightarrow> string \<Rightarrow> Request \<Rightarrow> Time \<Rightarrow> Request" where
  "CheckHeader_leaves m access req now =
     (if ReadAll \<in> set (CheckHeader_calls m access req now)
      then req\<lparr>Body := map_option drain (Body req)\<rparr>
      else req)"

subsection \<open>Authorize\<close>

text \<open>
  \<^verbatim>\<open>Authorize\<close> returns an \<^verbatim>\<open>interface{}\<close>: nil, or a value with its dynamic type. The only
  dynamic type the method produces is \<^verbatim>\<open>string\<close>.
\<close>

datatype iface =
    NilValue
  | StringValue string

definition Authorize :: "StrictSHA1Manager \<Rightarrow> string \<Rightarrow> iface" where
  "Authorize m access =
     (if access = ''my_access_key'' then StringValue ''All good with my access key!''
      else StringValue ''All good with any access key!'')"

subsection \<open>Conditions on a request\<close>

text \<open>
  The checks \<^verbatim>\<open>CheckHeader\<close> makes before it looks at the access key, as predicates:
  the body is there when a content length is declared; the \<^verbatim>\<open>Date\<close> header is present,
  parses, and is not more than fifteen minutes old on the manager's clock.
\<close>

definition body_present :: "Request \<Rightarrow> bool" where
  "body_present req = (ContentLength req = 0 \<or> Body req \<noteq> None)"

definition timestamp_ok :: "Request \<Rightarrow> Time \<Rightarrow> bool" where
  "timestamp_ok req now =
     (let dateHeader = Header_Get (Header req) ''Date'' in
      dateHeader \<noteq> '''' \<and>
      (case time_Parse dateHeader of
         None \<Rightarrow> False
       | Some date \<Rightarrow> now - date \<le> 15 * Minute))"

definition structural_ok :: "Request \<Rightarrow> Time \<Rightarrow> bool" where
  "structural_ok req now = (body_present req \<and> timestamp_ok req now)"


definition body_unreadable :: "Request \<Rightarrow> bool" where
  "body_unreadable req =
     (case Body req of None \<Rightarrow> False | Some rc \<Rightarrow> snd (ioutil_ReadAll rc) \<noteq> None)"

text \<open>Two byte sequences of one length that differ at exactly one position.\<close>

definition single_byte_change :: "byte list \<Rightarrow> byte list \<Rightarrow> bool" where
  "single_byte_change bs bs' =
     (length bs = length bs' \<and> length (filter (\<lambda>(x, y). x \<noteq> y) (zip bs bs')) = 1)"

text \<open>A string without a newline character.\<close>

definition newline_free :: "string \<Rightarrow> bool" where
  "newline_free s = (CHR 0x0A \<notin> set s)"

subsection \<open>Sample values\<close>

text \<open>
  A manager, a clock reading (2024-01-01T00:05:00Z) and two requests dated five minutes
  before it: a \<^verbatim>\<open>GET\<close> without a body and a \<^verbatim>\<open>POST\<close> of the five bytes \<^verbatim>\<open>hello\<close>.
\<close>

definition sample_manager :: StrictSHA1Manager where
  "sample_manager = \<lparr>Secret = ''s3cret'', HMACManager = None\<rparr>"

definition sample_now :: Time where
  "sample_now = 1704067500000000000"

definition sample_get :: Request where
  "sample_get =
     \<lparr>Method = ''GET'', URL = ''/'', Host = ''example.org'',
      Header = [''Date'' \<mapsto> [''2024-01-01T00:00:00.000Z'']],
      Body = None, ContentLength = 0\<rparr>"

definition sample_post :: Request where
  "sample_post =
     \<lparr>Method = ''POST'', URL = ''/'', Host = ''example.org'',
      Header = [''Date'' \<mapsto> [''2024-01-01T00:00:00.000Z'']],
      Body = Some (Reader [0x68, 0x65, 0x6c, 0x6c, 0x6f]), ContentLength = 5\<rparr>"

text \<open>The sample \<^verbatim>\<open>POST\<close> with a body that delivers one byte and then fails.\<close>

definition sample_broken :: Request where
  "sample_broken = sample_post\<lparr>Body := Some (FailingReader [0x68] ''unexpected EOF'')\<rparr>"

subsection \<open>Two colliding messages\<close>

text \<open>
  Two messages of 64 bytes that differ in two bytes (at positions 35 and 55) and have
  the same MD5 digest, a published collision of the hash function.
\<close>

definition collision_a :: "byte list" where
  "collision_a = [
     0x4d, 0xc9, 0x68, 0xff, 0x0e, 0xe3, 0x5c, 0x20, 0x95, 0x72, 0xd4, 0x77, 0x7b, 0x72, 0x15, 0x87,
     0xd3, 0x6f, 0xa7, 0xb2, 0x1b, 0xdc, 0x56, 0xb7, 0x4a, 0x3d, 0xc0, 0x78, 0x3e, 0x7b, 0x95, 0x18,
     0xaf, 0xbf, 0xa2, 0x00, 0xa8, 0x28, 0x4b, 0xf3, 0x6e, 0x8e, 0x4b, 0x55, 0xb3, 0x5f, 0x42, 0x75,
     0x93, 0xd8, 0x49, 0x67, 0x6d, 0xa0, 0xd1, 0x55, 0x5d, 0x83, 0x60, 0xfb, 0x5f, 0x07, 0xfe, 0xa2]"

definition collision_b :: "byte list" where
  "collision_b = [
     0x4d, 0xc9, 0x68, 0xff, 0x0e, 0xe3, 0x5c, 0x20, 0x95, 0x72, 0xd4, 0x77, 0x7b, 0x72, 0x15, 0x87,
     0xd3, 0x6f, 0xa7, 0xb2, 0x1b, 0xdc, 0x56, 0xb7, 0x4a, 0x3d, 0xc0, 0x78, 0x3e, 0x7b, 0x95, 0x18,
     0xaf, 0xbf, 0xa2, 0x02, 0xa8, 0x28, 0x4b, 0xf3, 0x6e, 0x8e, 0x4b, 0x55, 0xb3, 0x5f, 0x42, 0x75,
     0x93, 0xd8, 0x49, 0x67, 0x6d, 0xa0, 0xd1, 0xd5, 0x5d, 0x83, 0x60, 0xfb, 0x5f, 0x07, 0xfe, 0xa2]"

section \<open>Properties\<close>

subsection \<open>Auxiliary facts\<close>

text \<open>
  The staleness test of the manager compares a saturated duration; since fifteen minutes
  are far inside the range of a duration, it is a test on the exact elapsed time.
\<close>

lemma stale_iff: "Minute * 15 < time_Since now date \<longleftrightarrow> 15 * Minute < now - date"
  by (simp add: time_Since_def time_Sub_def Let_def minDuration_def maxDuration_def
      Minute_def Second_def Nanosecond_def)

lemma fifteen_minutes: "15 * Minute = 900000000000"
  by (simp add: Minute_def Second_def Nanosecond_def)

lemma parse_sample_date: "time_Parse ''2024-01-01T00:00:00.000Z'' = Some 1704067200000000000"
  by code_simp

lemma md5_hello:
  "hex_EncodeToString (md5_Sum [0x68, 0x65, 0x6c, 0x6c, 0x6f]) = ''5d41402abc4b2a76b9719d911017c592''"
  by code_simp

text \<open>
  \<^verbatim>\<open>hex.EncodeToString\<close> is injective: a byte is determined by its two nibbles, and the
  sixteen characters of the table are distinct.
\<close>

lemma hextable_inj:
  assumes "i < 16" and "j < 16" and "hextable ! i = hextable ! j"
  shows "i = j"
proof -
  have d: "distinct hextable" by (simp add: hextable_def)
  have l: "length hextable = 16" by (simp add: hextable_def)
  from assms(1,2) have "i < length hextable" and "j < length hextable"
    by (simp_all only: l)
  with d assms(3) show ?thesis
    by (simp only: nth_eq_iff_index_eq)
qed

lemma lo_nibble_take_bit: "(v :: byte) AND 0x0f = take_bit 4 v"
proof -
  have "(0x0f :: byte) = mask 4" by (simp add: mask_eq_exp_minus_1)
  then show ?thesis by (simp only: take_bit_eq_mask)
qed

lemma hi_nibble_less: "unat (drop_bit 4 (v :: byte)) < 16"
proof -
  have "unat v < 2 ^ 8" using unsigned_less [of v, where 'a = nat] by simp
  then have "drop_bit 4 (unat v) < 16" by (simp add: drop_bit_eq_div)
  then show ?thesis by (simp only: unat_drop_bit_eq)
qed

lemma lo_nibble_less: "unat ((v :: byte) AND 0x0f) < 16"
proof -
  have "take_bit 4 (unat v) < 2 ^ 4" by (rule take_bit_nat_less_exp)
  then show ?thesis by (simp add: lo_nibble_take_bit unsigned_take_bit_eq)
qed

lemma byte_of_nibbles:
  fixes v w :: byte
  assumes hi: "drop_bit 4 v = drop_bit 4 w" and lo: "v AND 0x0f = w AND 0x0f"
  shows "v = w"
proof (rule bit_word_eqI)
  fix n
  assume "n < LENGTH(8)"
  show "bit v n \<longleftrightarrow> bit w n"
  proof (cases "n < 4")
    case True
    from lo have "bit (take_bit 4 v) n \<longleftrightarrow> bit (take_bit 4 w) n"
      by (simp only: lo_nibble_take_bit)
    with True show ?thesis by (simp add: bit_take_bit_iff)
  next
    case False
    from hi have "bit (drop_bit 4 v) (n - 4) \<longleftrightarrow> bit (drop_bit 4 w) (n - 4)" by simp
    with False show ?thesis by (simp add: bit_drop_bit_eq)
  qed
qed

lemma hex_EncodeToString_inj:
  "hex_EncodeToString xs = hex_EncodeToString ys \<Longrightarrow> xs = ys"
proof (induction xs arbitrary: ys)
  case Nil
  then show ?case by (cases ys) (simp_all add: hex_EncodeToString_def)
next
  case (Cons x xs)
  then obtain y ys' where ys: "ys = y # ys'"
    by (cases ys) (simp_all add: hex_EncodeToString_def)
  from Cons.prems ys
  have h: "hextable ! unat (drop_bit 4 x) = hextable ! unat (drop_bit 4 y)"
    and l: "hextable ! unat (x AND 0x0f) = hextable ! unat (y AND 0x0f)"
    and r: "hex_EncodeToString xs = hex_EncodeToString ys'"
    by (simp_all add: hex_EncodeToString_def)
  from h have "unat (drop_bit 4 x) = unat (drop_bit 4 y)"
    by (rule hextable_inj [OF hi_nibble_less hi_nibble_less])
  then have hi: "drop_bit 4 x = drop_bit 4 y"
    by (simp only: word_unat_eq_iff)
  from l have "unat (x AND 0x0f) = unat (y AND 0x0f)"
    by (rule hextable_inj [OF lo_nibble_less lo_nibble_less])
  then have lo: "x AND 0x0f = y AND 0x0f"
    by (simp only: word_unat_eq_iff)
  from hi lo have "x = y"
    by (rule byte_of_nibbles)
  with Cons.IH [OF r] ys show ?case by simp
qed

text \<open>The timestamp condition, with the parsed date named.\<close>

lemma timestamp_ok_iff:
  "timestamp_ok req now \<longleftrightarrow>
     Header_Get (Header req) ''Date'' \<noteq> '''' \<and>
     (\<exists>date. time_Parse (Header_Get (Header req) ''Date'') = Some date
        \<and> now - date \<le> 15 * Minute)"
  by (auto simp: timestamp_ok_def Let_def split: option.splits)

text \<open>
  The MD5 model on three messages of the test suite of RFC 1321: the empty message, a
  short one, and one of 62 bytes whose padding runs into a second block.
\<close>

lemma md5_test_suite:
  "hex_EncodeToString (md5_Sum []) = ''d41d8cd98f00b204e9800998ecf8427e''"
  "hex_EncodeToString (md5_Sum [0x61, 0x62, 0x63]) = ''900150983cd24fb0d6963f7d28e17f72''"
  "hex_EncodeToString (md5_Sum (map (of_nat \<circ> of_char)
       ''ABCDEFGHIJKLMNOPQRSTUVWXYZabcdefghijklmnopqrstuvwxyz0123456789''))
     = ''d174ab98d277d9f5a5611c2c9f419d9f''"
  by code_simp+

text \<open>The date parser on a leap day, on a day that does not exist, and on other formats.\<close>

lemma time_Parse_examples:
  "time_Parse ''1970-01-01T00:00:00.000Z'' = Some 0"
  "time_Parse ''2024-02-29T23:59:59.999Z'' = Some 1709251199999000000"
  "time_Parse ''2023-02-29T23:59:59.999Z'' = None"
  "time_Parse ''2024-01-01T00:00:00Z'' = None"
  "time_Parse ''2024-01-01 00:00:00.000Z'' = None"
  by code_simp+

text \<open>Facts about the sample values: their dates parse, and the requests are fresh.\<close>

lemma parse_rfc1123_date: "time_Parse ''Mon, 01 Jan 2024 00:00:00 GMT'' = None"
  by code_simp

lemma md5_jello:
  "hex_EncodeToString (md5_Sum [0x6a, 0x65, 0x6c, 0x6c, 0x6f]) = ''7aa6991a62353dd2761280cf592542dc''"
  by code_simp

lemma sample_date_headers:
  "Header_Get (Header sample_post) ''Date'' = ''2024-01-01T00:00:00.000Z''"
  "Header_Get (Header sample_get) ''Date'' = ''2024-01-01T00:00:00.000Z''"
  by (simp_all add: sample_post_def sample_get_def Header_Get_def)

lemma sample_timestamp_ok:
  "timestamp_ok sample_post sample_now"
  "timestamp_ok sample_get sample_now"
  by (simp_all add: timestamp_ok_iff sample_date_headers parse_sample_date sample_now_def
      fifteen_minutes)

text \<open>Two signing strings that differ in the digest only are equal exactly when the digests are.\<close>

lemma signing_string_eq_iff:
  "meth @ newline @ hex_EncodeToString ds @ newline @ dateHeader
     = meth @ newline @ hex_EncodeToString ds' @ newline @ dateHeader
   \<longleftrightarrow> ds = ds'"
  by (auto dest: hex_EncodeToString_inj)

text \<open>
  A value that parses as a date holds no newline: every chunk of the layout consumes
  digits, a sign or a literal character. Nor does a hex encoding; and a string is cut
  at its last newline in one way only.
\<close>

lemma newline_free_simps [simp]:
  "newline_free []"
  "newline_free (c # cs) \<longleftrightarrow> c \<noteq> CHR 0x0A \<and> newline_free cs"
  "newline_free (xs @ ys) \<longleftrightarrow> newline_free xs \<and> newline_free ys"
  by (auto simp: newline_free_def)

lemma isDigit_not_newline: "isDigit s i \<Longrightarrow> s ! i \<noteq> CHR 0x0A"
  by (auto simp: isDigit_def)

lemma skip_newline_free:
  "skip v p = Some v' \<Longrightarrow> newline_free p \<Longrightarrow> newline_free v' \<Longrightarrow> newline_free v"
  by (induction v p rule: skip.induct) (auto split: if_splits)

lemma getnum_newline_free:
  assumes "getnum s fixed = Some (n, s')" and "newline_free s'"
  shows "newline_free s"
proof -
  from assms(1) have d0: "isDigit s 0"
    by (auto simp: getnum_def split: if_splits)
  then obtain c cs where s: "s = c # cs"
    by (cases s) (auto simp: isDigit_def)
  from isDigit_not_newline [OF d0] s have c: "c \<noteq> CHR 0x0A"
    by simp
  show ?thesis
  proof (cases "isDigit s 1")
    case True
    then obtain c' cs' where cs: "cs = c' # cs'"
      using s by (cases cs) (auto simp: isDigit_def)
    from isDigit_not_newline [OF True] s cs have c': "c' \<noteq> CHR 0x0A"
      by simp
    from assms(1) True d0 have "s' = drop 2 s"
      by (auto simp: getnum_def split: if_splits)
    with s cs c c' assms(2) show ?thesis by simp
  next
    case False
    with assms(1) d0 have "s' = drop 1 s"
      by (auto simp: getnum_def split: if_splits)
    with s c assms(2) show ?thesis by simp
  qed
qed

lemma leadingInt_newline_free:
  "leadingInt x s = (q, []) \<Longrightarrow> newline_free s"
  by (induction x s rule: leadingInt.induct) (auto simp: isDigit_def split: if_splits)

lemma atoi_newline_free:
  assumes "atoi s = Some n"
  shows "newline_free s"
proof -
  let ?signed = "s \<noteq> [] \<and> (hd s = CHR ''-'' \<or> hd s = CHR ''+'')"
  from assms obtain q where q: "leadingInt 0 (if ?signed then tl s else s) = (q, [])"
    by (auto simp: atoi_def Let_def split: prod.splits if_splits)
  then have t: "newline_free (if ?signed then tl s else s)"
    by (rule leadingInt_newline_free)
  show ?thesis
  proof (cases ?signed)
    case True
    then obtain c cs where "s = c # cs" and "c = CHR ''-'' \<or> c = CHR ''+''"
      by (cases s) auto
    with t True show ?thesis by auto
  next
    case False
    with t show ?thesis by simp
  qed
qed

lemma parseNanoseconds_newline_free:
  assumes "parseNanoseconds v 4 = Some ns" and "4 \<le> length v" and "newline_free (drop 4 v)"
  shows "newline_free v"
proof -
  from assms(1) have sep: "v ! 0 = CHR ''.'' \<or> v ! 0 = CHR '',''"
    and "\<exists>n. atoi (take 3 (drop 1 v)) = Some n"
    by (auto simp: parseNanoseconds_def bind_eq_Some_conv split: if_splits)
  then have frac: "newline_free (take 3 (drop 1 v))"
    by (auto dest: atoi_newline_free)
  from assms(2) have "v = v ! 0 # take 3 (drop 1 v) @ drop 4 v"
    by (cases v) (simp_all add: take_Suc_conv_app_nth drop_Suc)
  then have "newline_free v \<longleftrightarrow> v ! 0 \<noteq> CHR 0x0A \<and> newline_free (take 3 (drop 1 v)) \<and> newline_free (drop 4 v)"
    by (metis newline_free_simps(2,3))
  with sep frac assms(3) show ?thesis by auto
qed

lemma year_newline_free:
  assumes "atoi (take 4 v) = Some y" and "newline_free (drop 4 v)"
  shows "newline_free v"
proof -
  from assms(1) have "newline_free (take 4 v)" by (rule atoi_newline_free)
  with assms(2) have "newline_free (take 4 v @ drop 4 v)"
    by (simp only: newline_free_simps)
  then show ?thesis by (simp only: append_take_drop_id)
qed

lemma time_Parse_newline_free:
  assumes "time_Parse v0 = Some t"
  shows "newline_free v0"
proof -
  from assms obtain year v1 v2 month v3 v4 day v5 v6 hour v7 v8 minute v9 v10 sec v11 nsec
    where y: "atoi (take 4 v0) = Some year" "v1 = drop 4 v0"
      and s2: "skip v1 ''-'' = Some v2"
      and g3: "getnum v2 True = Some (month, v3)"
      and s4: "skip v3 ''-'' = Some v4"
      and g5: "getnum v4 True = Some (day, v5)"
      and s6: "skip v5 ''T'' = Some v6"
      and g7: "getnum v6 False = Some (hour, v7)"
      and s8: "skip v7 '':'' = Some v8"
      and g9: "getnum v8 True = Some (minute, v9)"
      and s10: "skip v9 '':'' = Some v10"
      and g11: "getnum v10 True = Some (sec, v11)"
      and n12: "4 \<le> length v11" "parseNanoseconds v11 4 = Some nsec"
      and s13: "skip (drop 4 v11) ''Z'' = Some []"
    unfolding time_Parse_def
    by (fastforce simp: bind_eq_Some_conv split: if_splits)
  have "newline_free (drop 4 v11)"
    by (rule skip_newline_free [OF s13]) simp_all
  then have "newline_free v11"
    by (rule parseNanoseconds_newline_free [OF n12(2) n12(1)])
  then have "newline_free v10" by (rule getnum_newline_free [OF g11])
  then have "newline_free v9" by (intro skip_newline_free [OF s10]) simp_all
  then have "newline_free v8" by (rule getnum_newline_free [OF g9])
  then have "newline_free v7" by (intro skip_newline_free [OF s8]) simp_all
  then have "newline_free v6" by (rule getnum_newline_free [OF g7])
  then have "newline_free v5" by (intro skip_newline_free [OF s6]) simp_all
  then have "newline_free v4" by (rule getnum_newline_free [OF g5])
  then have "newline_free v3" by (intro skip_newline_free [OF s4]) simp_all
  then have "newline_free v2" by (rule getnum_newline_free [OF g3])
  then have "newline_free v1" by (intro skip_newline_free [OF s2]) simp_all
  with y show ?thesis by (auto intro: year_newline_free)
qed

lemma hex_EncodeToString_newline_free: "newline_free (hex_EncodeToString xs)"
proof -
  have t: "newline_free hextable"
    by (simp add: hextable_def)
  have "hextable ! i \<noteq> CHR 0x0A" if "i < 16" for i
  proof -
    from that have "i < length hextable"
      by (simp add: hextable_def)
    then have "hextable ! i \<in> set hextable"
      by (rule nth_mem)
    with t show ?thesis by (auto simp: newline_free_def)
  qed
  then show ?thesis
    by (induction xs) (simp_all add: hex_EncodeToString_def hi_nibble_less lo_nibble_less)
qed

lemma length_md5_Sum: "length (md5_Sum bs) = 16"
  by (cases "foldl md5_block md5_init (md5_blocks (md5_pad bs))")
     (simp add: md5_Sum_def le_bytes_def)

lemma length_hex_EncodeToString: "length (hex_EncodeToString xs) = 2 * length xs"
  by (induction xs) (simp_all add: hex_EncodeToString_def)

lemma split_at_last_newline:
  assumes "a @ newline @ c = a' @ newline @ c'"
    and "newline_free c" and "newline_free c'"
  shows "a = a' \<and> c = c'"
proof -
  let ?P = "\<lambda>x. x \<noteq> CHR 0x0A"
  have tw: "takeWhile ?P (rev z @ CHR 0x0A # rev y) = rev z" if "newline_free z" for y z
    using that by (auto simp: takeWhile_tail takeWhile_eq_all_conv newline_free_def)
  from assms(1) have "rev (a @ newline @ c) = rev (a' @ newline @ c')"
    by simp
  then have r: "rev c @ CHR 0x0A # rev a = rev c' @ CHR 0x0A # rev a'"
    by (simp add: newline_def)
  then have "takeWhile ?P (rev c @ CHR 0x0A # rev a) = takeWhile ?P (rev c' @ CHR 0x0A # rev a')"
    by simp
  with assms(2,3) have "rev c = rev c'"
    by (simp only: tw)
  then have c: "c = c'" by simp
  with r have "a = a'" by simp
  with c show ?thesis by simp
qed

text \<open>What an accepted request looks like.\<close>

lemma CheckHeader_accepts:
  assumes "CheckHeader m access r now = Some (s, d, None)"
  shows "access = ''my_access_key'' \<and> s = Secret m \<and> structural_ok r now
       \<and> (if ContentLength r = 0
           then d = Method r @ newline @ newline @ Header_Get (Header r) ''Date''
           else \<exists>rc b. Body r = Some rc \<and> ioutil_ReadAll rc = (b, None)
                  \<and> d = Method r @ newline @ hex_EncodeToString (md5_Sum b) @ newline
                          @ Header_Get (Header r) ''Date'')"
  using assms
  by (auto simp: CheckHeader_def CheckHeader_run_def Let_def stale_iff structural_ok_def
      body_present_def timestamp_ok_iff split: if_splits option.splits prod.splits)

text \<open>The two colliding messages differ, and the MD5 model gives them one digest.\<close>

lemma md5_collision:
  "hex_EncodeToString (md5_Sum collision_a) = ''008ee33a9d58b51cfeb425b0959121c9''"
  "hex_EncodeToString (md5_Sum collision_b) = ''008ee33a9d58b51cfeb425b0959121c9''"
  by code_simp+

lemma collision_differs:
  "collision_a \<noteq> collision_b"
  "length collision_a = 64"
  "length collision_b = 64"
  "filter (\<lambda>i. collision_a ! i \<noteq> collision_b ! i) [0..<64] = [35, 55]"
  by code_simp+

text \<open>The fields of the sample request with the failing body.\<close>

lemma sample_broken_facts:
  "ContentLength sample_broken = 5"
  "Body sample_broken = Some (FailingReader [0x68] ''unexpected EOF'')"
  "Method sample_broken = ''POST''"
  "Header sample_broken = [''Date'' \<mapsto> [''2024-01-01T00:00:00.000Z'']]"
  "body_unreadable sample_broken"
  by (simp_all add: sample_broken_def sample_post_def body_unreadable_def)

lemma sample_broken_date:
  "Header_Get (Header sample_broken) ''Date'' = ''2024-01-01T00:00:00.000Z''"
  by (simp add: sample_broken_facts Header_Get_def)

subsection \<open>The signing string\<close>

text \<open>
  Claim C1. For every request whose access key equals \<^verbatim>\<open>my_access_key\<close>, whose \<^verbatim>\<open>Date\<close>
  header is present, parses under the fixed layout and is at most fifteen minutes in the
  past, and whose body (when \<^verbatim>\<open>ContentLength\<close> is not zero) is readable,
  \<^verbatim>\<open>CheckHeader\<close> returns a nil error, the manager's \<^verbatim>\<open>Secret\<close>, and the signing string
  made of the HTTP method, a newline, the hex-encoded MD5 digest of the raw body bytes
  (nothing when \<^verbatim>\<open>ContentLength\<close> is zero), a newline, and the raw \<^verbatim>\<open>Date\<close> header value.
\<close>

theorem C1_signing_string:
  assumes key: "access = ''my_access_key''"
    and present: "Header_Get (Header req) ''Date'' \<noteq> ''''"
    and parses: "time_Parse (Header_Get (Header req) ''Date'') = Some date"
    and fresh: "now - date \<le> 15 * Minute"
    and readable: "ContentLength req \<noteq> 0 \<Longrightarrow> Body req = Some rc \<and> ioutil_ReadAll rc = (body, None)"
  shows "CheckHeader m access req now =
           Some (Secret m,
                 Method req @ newline
                   @ (if ContentLength req \<noteq> 0 then hex_EncodeToString (md5_Sum body) else '''')
                   @ newline @ Header_Get (Header req) ''Date'',
                 None)"
proof (cases "ContentLength req = 0")
  case True
  with key present parses fresh show ?thesis
    by (simp add: CheckHeader_def CheckHeader_run_def Let_def stale_iff)
next
  case False
  with readable have "Body req = Some rc" and "ioutil_ReadAll rc = (body, None)"
    by simp_all
  with False key present parses fresh show ?thesis
    by (simp add: CheckHeader_def CheckHeader_run_def Let_def stale_iff)
qed

text \<open>The two sample requests, five minutes after their date.\<close>

theorem C1_signing_string_witness:
  "CheckHeader sample_manager ''my_access_key'' sample_post sample_now =
     Some (''s3cret'',
           ''POST'' @ newline @ ''5d41402abc4b2a76b9719d911017c592'' @ newline
             @ ''2024-01-01T00:00:00.000Z'',
           None)
   \<and> CheckHeader sample_manager ''my_access_key'' sample_get sample_now =
     Some (''s3cret'', ''GET'' @ newline @ newline @ ''2024-01-01T00:00:00.000Z'', None)"
proof -
  have hp: "Header_Get (Header sample_post) ''Date'' = ''2024-01-01T00:00:00.000Z''"
    by (simp add: sample_post_def Header_Get_def)
  have hg: "Header_Get (Header sample_get) ''Date'' = ''2024-01-01T00:00:00.000Z''"
    by (simp add: sample_get_def Header_Get_def)
  have fresh: "sample_now - 1704067200000000000 \<le> 15 * Minute"
    by (simp add: sample_now_def fifteen_minutes)
  have post: "CheckHeader sample_manager ''my_access_key'' sample_post sample_now =
     Some (Secret sample_manager,
           Method sample_post @ newline
             @ (if ContentLength sample_post \<noteq> 0
                then hex_EncodeToString (md5_Sum [0x68, 0x65, 0x6c, 0x6c, 0x6f]) else '''')
             @ newline @ Header_Get (Header sample_post) ''Date'',
           None)"
    by (rule C1_signing_string [where date = 1704067200000000000
          and rc = "Reader [0x68, 0x65, 0x6c, 0x6c, 0x6f]"])
       (simp_all add: hp parse_sample_date fresh, simp add: sample_post_def)
  have get: "CheckHeader sample_manager ''my_access_key'' sample_get sample_now =
     Some (Secret sample_manager,
           Method sample_get @ newline
             @ (if ContentLength sample_get \<noteq> 0 then hex_EncodeToString (md5_Sum []) else '''')
             @ newline @ Header_Get (Header sample_get) ''Date'',
           None)"
    by (rule C1_signing_string [where date = 1704067200000000000 and rc = "Reader []"])
       (simp_all add: hg parse_sample_date fresh, simp add: sample_get_def)
  from post get show ?thesis
    by (simp add: md5_hello sample_post_def sample_get_def sample_manager_def Header_Get_def)
qed

subsection \<open>The timestamp rules\<close>

text \<open>
  Claim C2, as amended. For every request that passes the preceding body check (its
  content length is zero or its body is not nil), \<^verbatim>\<open>CheckHeader\<close> applies the timestamp
  rules in order, and each violation has its own error: a missing \<^verbatim>\<open>Date\<close> header gives
  status 406, and the date is not parsed; a \<^verbatim>\<open>Date\<close> header that does not parse under
  the fixed layout gives status 408, and the clock is not read; a parsed date more than
  fifteen minutes in the past gives status 410. The log shows which of the later rules
  were evaluated.
\<close>

theorem C2_timestamp_rules:
  assumes "body_present req"
  shows "(Header_Get (Header req) ''Date'' = '''' \<longrightarrow>
            CheckHeader_run m access req now =
              (Some ('''', '''', Some \<lparr>Status = 406, Err = ''no Date header provided''\<rparr>), []))
       \<and> (Header_Get (Header req) ''Date'' \<noteq> '''' \<and>
            time_Parse (Header_Get (Header req) ''Date'') = None \<longrightarrow>
            CheckHeader_run m access req now =
              (Some ('''', '''', Some \<lparr>Status = 408, Err = ''could not parse date''\<rparr>),
               [TimeParse (Header_Get (Header req) ''Date'')]))
       \<and> (\<forall>date. Header_Get (Header req) ''Date'' \<noteq> '''' \<and>
            time_Parse (Header_Get (Header req) ''Date'') = Some date \<and>
            15 * Minute < now - date \<longrightarrow>
            CheckHeader_run m access req now =
              (Some ('''', '''', Some \<lparr>Status = 410, Err = ''request is too old''\<rparr>),
               [TimeParse (Header_Get (Header req) ''Date''), TimeSince date]))"
  using assms
  by (auto simp: body_present_def CheckHeader_run_def Let_def stale_iff)

text \<open>
  The claim as stated, for every request, fails on a request that declares a content
  length and has a nil body: the body check comes first, and a missing \<^verbatim>\<open>Date\<close> header
  is then answered with status 400, not 406.
\<close>

theorem C2_missing_date_counterexample:
  "Header_Get (Header (sample_post\<lparr>Header := Map.empty, Body := None\<rparr>)) ''Date'' = ''''
   \<and> CheckHeader_run sample_manager ''my_access_key''
         (sample_post\<lparr>Header := Map.empty, Body := None\<rparr>) sample_now
       = (Some ('''', '''', Some \<lparr>Status = 400, Err = ''received a forged packet''\<rparr>), [])"
  by (simp add: CheckHeader_run_def sample_post_def Header_Get_def)

text \<open>
  The three rules on the sample request: without a \<^verbatim>\<open>Date\<close> header, with a date in
  another format, and twenty minutes after its date.
\<close>

theorem C2_timestamp_rules_witness:
  "CheckHeader_run sample_manager ''my_access_key'' (sample_post\<lparr>Header := Map.empty\<rparr>) sample_now
     = (Some ('''', '''', Some \<lparr>Status = 406, Err = ''no Date header provided''\<rparr>), [])
   \<and> CheckHeader_run sample_manager ''my_access_key''
         (sample_post\<lparr>Header := [''Date'' \<mapsto> [''Mon, 01 Jan 2024 00:00:00 GMT'']]\<rparr>) sample_now
     = (Some ('''', '''', Some \<lparr>Status = 408, Err = ''could not parse date''\<rparr>),
        [TimeParse ''Mon, 01 Jan 2024 00:00:00 GMT''])
   \<and> CheckHeader_run sample_manager ''my_access_key'' sample_post (sample_now + 15 * Minute)
     = (Some ('''', '''', Some \<lparr>Status = 410, Err = ''request is too old''\<rparr>),
        [TimeParse ''2024-01-01T00:00:00.000Z'', TimeSince 1704067200000000000])"
proof -
  have bp: "body_present (sample_post\<lparr>Header := h\<rparr>)" for h
    by (simp add: body_present_def sample_post_def)
  have bp': "body_present sample_post"
    by (simp add: body_present_def sample_post_def)
  show ?thesis
    using C2_timestamp_rules [OF bp [of Map.empty], where m = sample_manager
        and access = "''my_access_key''" and now = sample_now]
      C2_timestamp_rules [OF bp [of "[''Date'' \<mapsto> [''Mon, 01 Jan 2024 00:00:00 GMT'']]"],
        where m = sample_manager and access = "''my_access_key''" and now = sample_now]
      C2_timestamp_rules [OF bp', where m = sample_manager and access = "''my_access_key''"
        and now = "sample_now + 15 * Minute"]
    by (simp add: Header_Get_def sample_date_headers [unfolded Header_Get_def] parse_rfc1123_date
        parse_sample_date sample_now_def fifteen_minutes)
qed

subsection \<open>Timestamps in the future\<close>

text \<open>
  Claim C3. For every request whose \<^verbatim>\<open>Date\<close> header parses to an instant at or after the
  manager's current time, the staleness rule does not reject the request: the elapsed
  time is not positive, so it never exceeds the fifteen minutes, and \<^verbatim>\<open>CheckHeader\<close>
  returns no error of status 410.
\<close>

theorem C3_future_timestamp:
  assumes "time_Parse (Header_Get (Header req) ''Date'') = Some date"
    and "now \<le> date"
  shows "\<not> Minute * 15 < time_Since now date
       \<and> (\<forall>s d e. CheckHeader m access req now = Some (s, d, Some e) \<longrightarrow> Status e \<noteq> 410)"
proof -
  from assms(2) have fresh: "\<not> Minute * 15 < time_Since now date"
    by (simp add: stale_iff fifteen_minutes)
  with assms(1) show ?thesis
    by (auto simp: CheckHeader_def CheckHeader_run_def Let_def
        split: if_splits option.splits prod.splits)
qed

text \<open>The sample request, checked one hour before its date, is accepted.\<close>

theorem C3_future_timestamp_witness:
  "time_Parse (Header_Get (Header sample_get) ''Date'') = Some 1704067200000000000
   \<and> (1704063600000000000 :: Time) \<le> 1704067200000000000
   \<and> \<not> Minute * 15 < time_Since 1704063600000000000 1704067200000000000
   \<and> CheckHeader sample_manager ''my_access_key'' sample_get 1704063600000000000
       = Some (''s3cret'', ''GET'' @ newline @ newline @ ''2024-01-01T00:00:00.000Z'', None)"
proof -
  have p: "time_Parse (Header_Get (Header sample_get) ''Date'') = Some 1704067200000000000"
    by (simp add: sample_date_headers parse_sample_date)
  have le: "(1704063600000000000 :: Time) \<le> 1704067200000000000"
    by simp
  have run: "CheckHeader sample_manager ''my_access_key'' sample_get 1704063600000000000
       = Some (''s3cret'', ''GET'' @ newline @ newline @ ''2024-01-01T00:00:00.000Z'', None)"
    by (simp add: CheckHeader_def CheckHeader_run_def Let_def sample_date_headers
        parse_sample_date stale_iff fifteen_minutes)
       (simp add: sample_get_def sample_manager_def)
  from C3_future_timestamp [OF p le, of sample_manager "''my_access_key''"] p le run
  show ?thesis by simp
qed

subsection \<open>Absent and unreadable bodies\<close>

text \<open>
  Claim C4, as amended. For every request that declares a content length other than zero
  (in particular one greater than zero) and whose body is absent or unreadable,
  \<^verbatim>\<open>CheckHeader\<close> fails, with an empty secret and an empty signing string, and no body
  digest is produced. An absent body gives the malformed-request error of status 400.
  An unreadable body gives the malformed-request error of status 402, which is not the
  error of an unknown access key, when the \<^verbatim>\<open>Date\<close> header passes the timestamp rules
  and the access key is \<^verbatim>\<open>my_access_key\<close>; the body is read in this case and in no
  other. Otherwise the unreadable body is not noticed, and the error is that of the
  first earlier check that fails: 406, 408 or 410 for the timestamp rules, 418 for
  another access key. The theorem gives the result and the log of every case.
\<close>

theorem C4_body_errors:
  assumes "ContentLength req \<noteq> 0"
    and "Body req = None \<or> body_unreadable req"
  shows "(Body req = None \<longrightarrow>
            CheckHeader_run m access req now =
              (Some ('''', '''', Some \<lparr>Status = 400, Err = ''received a forged packet''\<rparr>), []))
       \<and> (Body req \<noteq> None \<and> Header_Get (Header req) ''Date'' = '''' \<longrightarrow>
            CheckHeader_run m access req now =
              (Some ('''', '''', Some \<lparr>Status = 406, Err = ''no Date header provided''\<rparr>), []))
       \<and> (Body req \<noteq> None \<and> Header_Get (Header req) ''Date'' \<noteq> '''' \<and>
            time_Parse (Header_Get (Header req) ''Date'') = None \<longrightarrow>
            CheckHeader_run m access req now =
              (Some ('''', '''', Some \<lparr>Status = 408, Err = ''could not parse date''\<rparr>),
               [TimeParse (Header_Get (Header req) ''Date'')]))
       \<and> (\<forall>date. Body req \<noteq> None \<and> Header_Get (Header req) ''Date'' \<noteq> '''' \<and>
            time_Parse (Header_Get (Header req) ''Date'') = Some date \<and>
            15 * Minute < now - date \<longrightarrow>
            CheckHeader_run m access req now =
              (Some ('''', '''', Some \<lparr>Status = 410, Err = ''request is too old''\<rparr>),
               [TimeParse (Header_Get (Header req) ''Date''), TimeSince date]))
       \<and> (\<forall>date. Body req \<noteq> None \<and> Header_Get (Header req) ''Date'' \<noteq> '''' \<and>
            time_Parse (Header_Get (Header req) ''Date'') = Some date \<and>
            now - date \<le> 15 * Minute \<and> access \<noteq> ''my_access_key'' \<longrightarrow>
            CheckHeader_run m access req now =
              (Some ('''', '''', Some \<lparr>Status = 418, Err = ''you are a teapot''\<rparr>),
               [TimeParse (Header_Get (Header req) ''Date''), TimeSince date, KeyCheck access]))
       \<and> (\<forall>date. Body req \<noteq> None \<and> Header_Get (Header req) ''Date'' \<noteq> '''' \<and>
            time_Parse (Header_Get (Header req) ''Date'') = Some date \<and>
            now - date \<le> 15 * Minute \<and> access = ''my_access_key'' \<longrightarrow>
            CheckHeader_run m access req now =
              (Some ('''', '''', Some \<lparr>Status = 402, Err = ''could not read the body''\<rparr>),
               [TimeParse (Header_Get (Header req) ''Date''), TimeSince date, KeyCheck access,
                ReadAll]))
       \<and> (\<exists>e. CheckHeader m access req now = Some ('''', '''', Some e))
       \<and> (ReadAll \<in> set (CheckHeader_calls m access req now) \<longleftrightarrow>
            Body req \<noteq> None \<and> timestamp_ok req now \<and> access = ''my_access_key'')
       \<and> (\<forall>bs. MD5 bs \<notin> set (CheckHeader_calls m access req now))"
  using assms
  by (auto simp: CheckHeader_def CheckHeader_calls_def CheckHeader_run_def Let_def stale_iff
      timestamp_ok_iff body_unreadable_def split: option.splits prod.splits)

text \<open>
  The claim as stated, status 402 for every unreadable body, fails on the sample request
  with a content length of five and a body that cannot be read: without a \<^verbatim>\<open>Date\<close>
  header the answer is 406, with a date in another format 408, twenty minutes after its
  date 410, and under another access key 418, the error of an unknown key.
\<close>

theorem C4_unreadable_body_counterexample:
  "0 < ContentLength sample_broken \<and> body_unreadable sample_broken
   \<and> CheckHeader sample_manager ''my_access_key'' (sample_broken\<lparr>Header := Map.empty\<rparr>) sample_now
       = Some ('''', '''', Some \<lparr>Status = 406, Err = ''no Date header provided''\<rparr>)
   \<and> CheckHeader sample_manager ''my_access_key''
         (sample_broken\<lparr>Header := [''Date'' \<mapsto> [''Mon, 01 Jan 2024 00:00:00 GMT'']]\<rparr>) sample_now
       = Some ('''', '''', Some \<lparr>Status = 408, Err = ''could not parse date''\<rparr>)
   \<and> CheckHeader sample_manager ''my_access_key'' sample_broken (sample_now + 15 * Minute)
       = Some ('''', '''', Some \<lparr>Status = 410, Err = ''request is too old''\<rparr>)
   \<and> CheckHeader sample_manager ''another_key'' sample_broken sample_now
       = Some ('''', '''', Some \<lparr>Status = 418, Err = ''you are a teapot''\<rparr>)"
  by (simp add: CheckHeader_def CheckHeader_run_def Let_def sample_broken_facts Header_Get_def
      parse_sample_date parse_rfc1123_date stale_iff fifteen_minutes sample_now_def)

text \<open>
  The sample request with a nil body; with the failing body under the known key, under
  another key, and without a \<^verbatim>\<open>Date\<close> header.
\<close>

theorem C4_body_errors_witness:
  "CheckHeader_run sample_manager ''my_access_key'' (sample_post\<lparr>Body := None\<rparr>) sample_now
     = (Some ('''', '''', Some \<lparr>Status = 400, Err = ''received a forged packet''\<rparr>), [])
   \<and> CheckHeader_run sample_manager ''my_access_key'' sample_broken sample_now
     = (Some ('''', '''', Some \<lparr>Status = 402, Err = ''could not read the body''\<rparr>),
        [TimeParse ''2024-01-01T00:00:00.000Z'', TimeSince 1704067200000000000,
         KeyCheck ''my_access_key'', ReadAll])
   \<and> CheckHeader_run sample_manager ''another_key'' sample_broken sample_now
     = (Some ('''', '''', Some \<lparr>Status = 418, Err = ''you are a teapot''\<rparr>),
        [TimeParse ''2024-01-01T00:00:00.000Z'', TimeSince 1704067200000000000,
         KeyCheck ''another_key''])
   \<and> CheckHeader_run sample_manager ''my_access_key'' (sample_broken\<lparr>Header := Map.empty\<rparr>)
         sample_now
     = (Some ('''', '''', Some \<lparr>Status = 406, Err = ''no Date header provided''\<rparr>), [])"
proof -
  let ?absent = "sample_post\<lparr>Body := None\<rparr>"
  let ?undated = "sample_broken\<lparr>Header := Map.empty\<rparr>"
  have cl: "ContentLength ?absent \<noteq> 0" "ContentLength sample_broken \<noteq> 0"
    "ContentLength ?undated \<noteq> 0"
    by (simp_all add: sample_post_def sample_broken_facts)
  have bad: "Body ?absent = None \<or> body_unreadable ?absent"
    "Body sample_broken = None \<or> body_unreadable sample_broken"
    "Body ?undated = None \<or> body_unreadable ?undated"
    by (simp_all add: sample_broken_facts body_unreadable_def)
  have fresh: "sample_now - 1704067200000000000 \<le> 15 * Minute"
    by (simp add: sample_now_def fifteen_minutes)
  from C4_body_errors [OF cl(1) bad(1), of sample_manager "''my_access_key''" sample_now]
    C4_body_errors [OF cl(2) bad(2), of sample_manager "''my_access_key''" sample_now]
    C4_body_errors [OF cl(2) bad(2), of sample_manager "''another_key''" sample_now]
    C4_body_errors [OF cl(3) bad(3), of sample_manager "''my_access_key''" sample_now]
    fresh
  show ?thesis
    by (simp add: sample_broken_date sample_broken_facts parse_sample_date Header_Get_def)
qed

subsection \<open>The access key is looked at last\<close>

text \<open>
  Claim C5. For every request that fails a structural check (a nil body with a content
  length other than zero, a missing \<^verbatim>\<open>Date\<close> header, a date that does not parse, or a
  stale date), the result of \<^verbatim>\<open>CheckHeader\<close> is the same for every access key: for any
  two access keys the results are equal, and the run never compares the access key.
\<close>

theorem C5_access_key_deferred:
  assumes "\<not> structural_ok req now"
  shows "CheckHeader m a1 req now = CheckHeader m a2 req now
       \<and> CheckHeader_calls m a1 req now = CheckHeader_calls m a2 req now
       \<and> (\<forall>k. KeyCheck k \<notin> set (CheckHeader_calls m a1 req now))"
  using assms
  by (auto simp: CheckHeader_def CheckHeader_calls_def CheckHeader_run_def Let_def stale_iff
      structural_ok_def body_present_def timestamp_ok_iff split: option.splits)

text \<open>The sample request without its \<^verbatim>\<open>Date\<close> header, under two access keys.\<close>

theorem C5_access_key_deferred_witness:
  "\<not> structural_ok (sample_post\<lparr>Header := Map.empty\<rparr>) sample_now
   \<and> CheckHeader sample_manager ''my_access_key'' (sample_post\<lparr>Header := Map.empty\<rparr>) sample_now
       = CheckHeader sample_manager ''another_key'' (sample_post\<lparr>Header := Map.empty\<rparr>) sample_now
   \<and> KeyCheck ''my_access_key'' \<notin> set (CheckHeader_calls sample_manager ''my_access_key''
         (sample_post\<lparr>Header := Map.empty\<rparr>) sample_now)"
proof -
  have n: "\<not> structural_ok (sample_post\<lparr>Header := Map.empty\<rparr>) sample_now"
    by (simp add: structural_ok_def timestamp_ok_iff Header_Get_def)
  from C5_access_key_deferred [OF n, of sample_manager "''my_access_key''" "''another_key''"] n
  show ?thesis by blast
qed

subsection \<open>Unknown access keys\<close>

text \<open>
  Claim C6. For every request that passes all structural checks but whose access key is
  not \<^verbatim>\<open>my_access_key\<close>, \<^verbatim>\<open>CheckHeader\<close> returns the error of status 418 with an empty
  secret and an empty signing string, and the run neither reads the body nor computes
  a digest.
\<close>

theorem C6_unknown_key:
  assumes "structural_ok req now"
    and "access \<noteq> ''my_access_key''"
  shows "CheckHeader m access req now =
           Some ('''', '''', Some \<lparr>Status = 418, Err = ''you are a teapot''\<rparr>)
       \<and> ReadAll \<notin> set (CheckHeader_calls m access req now)
       \<and> (\<forall>bs. MD5 bs \<notin> set (CheckHeader_calls m access req now))"
  using assms
  by (auto simp: CheckHeader_def CheckHeader_calls_def CheckHeader_run_def Let_def stale_iff
      structural_ok_def body_present_def timestamp_ok_iff split: option.splits)

text \<open>The sample \<^verbatim>\<open>POST\<close> under another access key.\<close>

theorem C6_unknown_key_witness:
  "CheckHeader sample_manager ''another_key'' sample_post sample_now
     = Some ('''', '''', Some \<lparr>Status = 418, Err = ''you are a teapot''\<rparr>)
   \<and> ReadAll \<notin> set (CheckHeader_calls sample_manager ''another_key'' sample_post sample_now)
   \<and> MD5 [0x68, 0x65, 0x6c, 0x6c, 0x6f]
       \<notin> set (CheckHeader_calls sample_manager ''another_key'' sample_post sample_now)"
proof -
  have "body_present sample_post"
    by (simp add: body_present_def sample_post_def)
  with sample_timestamp_ok(1) have ok: "structural_ok sample_post sample_now"
    by (simp add: structural_ok_def)
  have ne: "''another_key'' \<noteq> ''my_access_key''"
    by simp
  from C6_unknown_key [OF ok ne, of sample_manager] show ?thesis by simp
qed

subsection \<open>Errors carry no secret\<close>

text \<open>
  Claim C7. Whenever \<^verbatim>\<open>CheckHeader\<close> returns an error, the returned secret and the
  returned signing string are empty; and the error returned (nil or not, its status and
  its message) is the same for any two values of the manager's \<^verbatim>\<open>Secret\<close>, the request
  and the access key being the same.
\<close>

theorem C7_errors_carry_no_secret:
  "(CheckHeader m access req now = Some (s, d, Some e) \<longrightarrow> s = '''' \<and> d = '''')
   \<and> map_option (snd \<circ> snd) (CheckHeader m access req now)
       = map_option (snd \<circ> snd) (CheckHeader m' access req now)"
  by (auto simp: CheckHeader_def CheckHeader_run_def Let_def
      split: option.splits prod.splits)

text \<open>The sample \<^verbatim>\<open>POST\<close> under another access key, for two secrets.\<close>

theorem C7_errors_carry_no_secret_witness:
  "CheckHeader sample_manager ''another_key'' sample_post sample_now
     = Some ('''', '''', Some \<lparr>Status = 418, Err = ''you are a teapot''\<rparr>)
   \<and> map_option (snd \<circ> snd) (CheckHeader sample_manager ''another_key'' sample_post sample_now)
     = map_option (snd \<circ> snd)
         (CheckHeader (sample_manager\<lparr>Secret := ''another secret''\<rparr>) ''another_key''
            sample_post sample_now)"
proof -
  have run: "CheckHeader sample_manager ''another_key'' sample_post sample_now
     = Some ('''', '''', Some \<lparr>Status = 418, Err = ''you are a teapot''\<rparr>)"
    by (simp add: CheckHeader_def CheckHeader_run_def Let_def sample_date_headers
        parse_sample_date stale_iff fifteen_minutes sample_now_def)
       (simp add: sample_post_def)
  from C7_errors_carry_no_secret [of sample_manager "''another_key''" sample_post sample_now
      "''''" "''''" "\<lparr>Status = 418, Err = ''you are a teapot''\<rparr>"
      "sample_manager\<lparr>Secret := ''another secret''\<rparr>"] run
  show ?thesis by simp
qed

subsection \<open>Determinism\<close>




subsection \<open>Authorize\<close>

text \<open>
  Claim C10. \<^verbatim>\<open>Authorize\<close> never fails and never returns nil: it returns
  \<^verbatim>\<open>All good with my access key!\<close> for the access key \<^verbatim>\<open>my_access_key\<close> and
  \<^verbatim>\<open>All good with any access key!\<close> for every other one, whatever the manager holds.
\<close>

theorem C10_Authorize:
  "Authorize m access \<noteq> NilValue
   \<and> (access = ''my_access_key'' \<longrightarrow> Authorize m access = StringValue ''All good with my access key!'')
   \<and> (access \<noteq> ''my_access_key'' \<longrightarrow> Authorize m access = StringValue ''All good with any access key!'')
   \<and> Authorize m access = Authorize m' access"
  by (simp add: Authorize_def)

text \<open>Both branches, and a manager with another secret.\<close>

theorem C10_Authorize_witness:
  "Authorize sample_manager ''my_access_key'' = StringValue ''All good with my access key!''
   \<and> Authorize sample_manager ''another_key'' = StringValue ''All good with any access key!''
   \<and> Authorize sample_manager ''another_key'' = Authorize (sample_manager\<lparr>Secret := ''x''\<rparr>) ''another_key''"
  using C10_Authorize [of sample_manager "''my_access_key''" "sample_manager\<lparr>Secret := ''x''\<rparr>"]
    C10_Authorize [of sample_manager "''another_key''" "sample_manager\<lparr>Secret := ''x''\<rparr>"]
  by (simp add: Authorize_def)

subsection \<open>Further properties of CheckHeader\<close>

text \<open>
  \<^verbatim>\<open>CheckHeader\<close> always returns: the read of a nil body is never reached, since the
  first check answers a nil body with a declared content length, and the body is read
  only under a declared content length.
\<close>

theorem CheckHeader_never_panics:
  "\<exists>secret signing err. CheckHeader m access req now = Some (secret, signing, err)"
  by (auto simp: CheckHeader_def CheckHeader_run_def Let_def split: option.splits prod.splits)

text \<open>
  The digest is the last thing a run computes: a run that computes the MD5 digest of
  some bytes was given the access key \<^verbatim>\<open>my_access_key\<close> and a request that passes every
  structural check and declares a content length, and the bytes are those its body
  delivered without an error.
\<close>

theorem digest_only_after_all_checks:
  assumes "MD5 bs \<in> set (CheckHeader_calls m access req now)"
  shows "access = ''my_access_key'' \<and> structural_ok req now \<and> ContentLength req \<noteq> 0
       \<and> (\<exists>rc. Body req = Some rc \<and> ioutil_ReadAll rc = (bs, None))"
  using assms
  by (auto simp: CheckHeader_calls_def CheckHeader_run_def Let_def stale_iff
      structural_ok_def body_present_def timestamp_ok_iff
      split: if_splits option.splits prod.splits)

text \<open>The run on the sample \<^verbatim>\<open>POST\<close> computes the digest of its body.\<close>

theorem digest_only_after_all_checks_witness:
  "MD5 [0x68, 0x65, 0x6c, 0x6c, 0x6f]
     \<in> set (CheckHeader_calls sample_manager ''my_access_key'' sample_post sample_now)
   \<and> structural_ok sample_post sample_now
   \<and> ContentLength sample_post \<noteq> 0"
proof -
  have "CheckHeader_calls sample_manager ''my_access_key'' sample_post sample_now
      = [TimeParse ''2024-01-01T00:00:00.000Z'', TimeSince 1704067200000000000,
         KeyCheck ''my_access_key'', ReadAll, MD5 [0x68, 0x65, 0x6c, 0x6c, 0x6f]]"
    by (simp add: CheckHeader_calls_def CheckHeader_run_def Let_def sample_date_headers
        parse_sample_date stale_iff fifteen_minutes sample_now_def)
       (simp add: sample_post_def)
  then have "MD5 [0x68, 0x65, 0x6c, 0x6c, 0x6f]
     \<in> set (CheckHeader_calls sample_manager ''my_access_key'' sample_post sample_now)"
    by simp
  from this digest_only_after_all_checks [OF this] show ?thesis
    by simp
qed

text \<open>
  For a request that passes the body check and whose \<^verbatim>\<open>Date\<close> header parses, the
  stale-request error is returned exactly when more than fifteen minutes have elapsed
  since the date, whatever the access key, the body and the secret are.
\<close>

theorem stale_exactly_after_fifteen_minutes:
  assumes "body_present req"
    and "Header_Get (Header req) ''Date'' \<noteq> ''''"
    and "time_Parse (Header_Get (Header req) ''Date'') = Some date"
  shows "CheckHeader m access req now
           = Some ('''', '''', Some \<lparr>Status = 410, Err = ''request is too old''\<rparr>)
         \<longleftrightarrow> 15 * Minute < now - date"
  using assms
  by (auto simp: CheckHeader_def CheckHeader_run_def Let_def stale_iff body_present_def
      split: option.splits prod.splits)

text \<open>Exactly fifteen minutes after its date the sample request is not stale; a nanosecond later it is.\<close>

theorem stale_exactly_after_fifteen_minutes_witness:
  "CheckHeader sample_manager ''my_access_key'' sample_get (1704067200000000000 + 15 * Minute)
     \<noteq> Some ('''', '''', Some \<lparr>Status = 410, Err = ''request is too old''\<rparr>)
   \<and> CheckHeader sample_manager ''my_access_key'' sample_get (1704067200000000000 + 15 * Minute + 1)
     = Some ('''', '''', Some \<lparr>Status = 410, Err = ''request is too old''\<rparr>)"
proof -
  have bp: "body_present sample_get"
    by (simp add: body_present_def sample_get_def)
  have h: "Header_Get (Header sample_get) ''Date'' \<noteq> ''''"
    by (simp add: sample_date_headers)
  have p: "time_Parse (Header_Get (Header sample_get) ''Date'') = Some 1704067200000000000"
    by (simp add: sample_date_headers parse_sample_date)
  from stale_exactly_after_fifteen_minutes [OF bp h p, of sample_manager "''my_access_key''"
      "1704067200000000000 + 15 * Minute"]
    stale_exactly_after_fifteen_minutes [OF bp h p, of sample_manager "''my_access_key''"
      "1704067200000000000 + 15 * Minute + 1"]
  show ?thesis by simp
qed

text \<open>
  The scenario of the specification: a \<^verbatim>\<open>GET\<close> without body dated
  2024-01-01T00:00:00.000Z has the signing string of its method, two newlines and its
  date; it is accepted five minutes after its date and rejected as stale twenty minutes
  after it.
\<close>

theorem replay_window_scenario:
  "time_Parse ''2024-01-01T00:05:00.000Z'' = Some 1704067500000000000
   \<and> time_Parse ''2024-01-01T00:20:00.000Z'' = Some 1704068400000000000
   \<and> CheckHeader sample_manager ''my_access_key'' sample_get 1704067500000000000
       = Some (''s3cret'', ''GET'' @ newline @ newline @ ''2024-01-01T00:00:00.000Z'', None)
   \<and> CheckHeader sample_manager ''my_access_key'' sample_get 1704068400000000000
       = Some ('''', '''', Some \<lparr>Status = 410, Err = ''request is too old''\<rparr>)"
proof -
  have "time_Parse ''2024-01-01T00:05:00.000Z'' = Some 1704067500000000000"
    and "time_Parse ''2024-01-01T00:20:00.000Z'' = Some 1704068400000000000"
    by code_simp+
  moreover
  have "CheckHeader sample_manager ''my_access_key'' sample_get 1704067500000000000
       = Some (''s3cret'', ''GET'' @ newline @ newline @ ''2024-01-01T00:00:00.000Z'', None)"
    by (simp add: CheckHeader_def CheckHeader_run_def Let_def sample_date_headers
        parse_sample_date stale_iff fifteen_minutes)
       (simp add: sample_get_def sample_manager_def)
  moreover
  have "CheckHeader sample_manager ''my_access_key'' sample_get 1704068400000000000
       = Some ('''', '''', Some \<lparr>Status = 410, Err = ''request is too old''\<rparr>)"
    by (simp add: CheckHeader_def CheckHeader_run_def Let_def sample_date_headers
        parse_sample_date stale_iff fifteen_minutes)
       (simp add: sample_get_def)
  ultimately show ?thesis by simp
qed

text \<open>
  The signing string of an accepted request determines the fields it was built from:
  two accepted requests with the same signing string have the same method and the same
  \<^verbatim>\<open>Date\<close> header value, both declare a content length or both do not, and if they do,
  their bodies have the same MD5 digest.
\<close>

theorem signing_string_determines_fields:
  assumes "CheckHeader m a1 r1 now1 = Some (s1, d, None)"
    and "CheckHeader m' a2 r2 now2 = Some (s2, d, None)"
  shows "Method r1 = Method r2
       \<and> Header_Get (Header r1) ''Date'' = Header_Get (Header r2) ''Date''
       \<and> (ContentLength r1 = 0 \<longleftrightarrow> ContentLength r2 = 0)
       \<and> (\<forall>rc1 rc2 b1 b2 e1 e2.
            ContentLength r1 \<noteq> 0 \<and> Body r1 = Some rc1 \<and> ioutil_ReadAll rc1 = (b1, e1)
              \<and> Body r2 = Some rc2 \<and> ioutil_ReadAll rc2 = (b2, e2)
            \<longrightarrow> md5_Sum b1 = md5_Sum b2)"
proof -
  let ?h1 = "Header_Get (Header r1) ''Date''" and ?h2 = "Header_Get (Header r2) ''Date''"
  define B1 where "B1 = (if ContentLength r1 = 0 then ''''
    else hex_EncodeToString (md5_Sum (fst (ioutil_ReadAll (the (Body r1))))))"
  define B2 where "B2 = (if ContentLength r2 = 0 then ''''
    else hex_EncodeToString (md5_Sum (fst (ioutil_ReadAll (the (Body r2))))))"
  note a1 = CheckHeader_accepts [OF assms(1)] and a2 = CheckHeader_accepts [OF assms(2)]
  from a1 have d1: "d = (Method r1 @ newline @ B1) @ newline @ ?h1"
    by (auto simp: B1_def split: if_splits)
  from a2 have d2: "d = (Method r2 @ newline @ B2) @ newline @ ?h2"
    by (auto simp: B2_def split: if_splits)
  from a1 a2 have "newline_free ?h1" and "newline_free ?h2"
    by (auto simp: structural_ok_def timestamp_ok_iff dest: time_Parse_newline_free)
  with d1 d2 have h: "?h1 = ?h2" and mb: "Method r1 @ newline @ B1 = Method r2 @ newline @ B2"
    using split_at_last_newline [of "Method r1 @ newline @ B1" ?h1 "Method r2 @ newline @ B2" ?h2]
    by simp_all
  have "newline_free B1" and "newline_free B2"
    by (simp_all add: B1_def B2_def hex_EncodeToString_newline_free)
  with mb have m: "Method r1 = Method r2" and b: "B1 = B2"
    using split_at_last_newline [of "Method r1" B1 "Method r2" B2]
    by simp_all
  have ne: "hex_EncodeToString (md5_Sum x) \<noteq> ''''" for x
    using length_hex_EncodeToString [of "md5_Sum x"] by (auto simp: length_md5_Sum)
  from b have cl: "ContentLength r1 = 0 \<longleftrightarrow> ContentLength r2 = 0"
    using ne ne [symmetric] by (auto simp: B1_def B2_def split: if_splits)
  have dig: "md5_Sum b1 = md5_Sum b2"
    if "ContentLength r1 \<noteq> 0" "Body r1 = Some rc1" "ioutil_ReadAll rc1 = (b1, e1)"
      "Body r2 = Some rc2" "ioutil_ReadAll rc2 = (b2, e2)" for rc1 rc2 b1 b2 e1 e2
  proof -
    from that cl b have "hex_EncodeToString (md5_Sum b1) = hex_EncodeToString (md5_Sum b2)"
      by (simp add: B1_def B2_def)
    then show ?thesis by (rule hex_EncodeToString_inj)
  qed
  from m h cl dig show ?thesis by blast
qed

text \<open>The sample \<^verbatim>\<open>POST\<close>, and a copy with another URL checked a minute later under another secret.\<close>

theorem signing_string_determines_fields_witness:
  "CheckHeader sample_manager ''my_access_key'' sample_post sample_now
     = Some (''s3cret'',
             ''POST'' @ newline @ ''5d41402abc4b2a76b9719d911017c592'' @ newline
               @ ''2024-01-01T00:00:00.000Z'', None)
   \<and> CheckHeader (sample_manager\<lparr>Secret := ''another secret''\<rparr>) ''my_access_key''
         (sample_post\<lparr>URL := ''/elsewhere''\<rparr>) (sample_now + 60000000000)
     = Some (''another secret'',
             ''POST'' @ newline @ ''5d41402abc4b2a76b9719d911017c592'' @ newline
               @ ''2024-01-01T00:00:00.000Z'', None)
   \<and> Method sample_post = Method (sample_post\<lparr>URL := ''/elsewhere''\<rparr>)
   \<and> Header_Get (Header sample_post) ''Date''
       = Header_Get (Header (sample_post\<lparr>URL := ''/elsewhere''\<rparr>)) ''Date''"
proof -
  have r1: "CheckHeader sample_manager ''my_access_key'' sample_post sample_now
     = Some (''s3cret'',
             ''POST'' @ newline @ ''5d41402abc4b2a76b9719d911017c592'' @ newline
               @ ''2024-01-01T00:00:00.000Z'', None)"
    by (simp add: CheckHeader_def CheckHeader_run_def Let_def sample_date_headers
        parse_sample_date stale_iff fifteen_minutes sample_now_def)
       (simp add: sample_post_def sample_manager_def md5_hello Header_Get_def)
  have r2: "CheckHeader (sample_manager\<lparr>Secret := ''another secret''\<rparr>) ''my_access_key''
         (sample_post\<lparr>URL := ''/elsewhere''\<rparr>) (sample_now + 60000000000)
     = Some (''another secret'',
             ''POST'' @ newline @ ''5d41402abc4b2a76b9719d911017c592'' @ newline
               @ ''2024-01-01T00:00:00.000Z'', None)"
    by (simp add: CheckHeader_def CheckHeader_run_def Let_def sample_date_headers
        parse_sample_date stale_iff fifteen_minutes sample_now_def)
       (simp add: sample_post_def sample_manager_def md5_hello Header_Get_def)
  from signing_string_determines_fields [OF r1 r2] r1 r2 show ?thesis
    by simp
qed

text \<open>
  A collision of MD5 carries over to the signing string: two requests that declare a
  content length of 64 and differ only in their bodies, the two colliding messages, are
  both accepted with the same signing string. Equal signing strings therefore determine
  the digest of the body, as shown above, but not the body.
\<close>

theorem md5_collision_same_signing_string:
  "collision_a \<noteq> collision_b
   \<and> CheckHeader sample_manager ''my_access_key''
         (sample_post\<lparr>Body := Some (Reader collision_a), ContentLength := 64\<rparr>) sample_now
     = Some (''s3cret'',
             ''POST'' @ newline @ ''008ee33a9d58b51cfeb425b0959121c9'' @ newline
               @ ''2024-01-01T00:00:00.000Z'', None)
   \<and> CheckHeader sample_manager ''my_access_key''
         (sample_post\<lparr>Body := Some (Reader collision_b), ContentLength := 64\<rparr>) sample_now
     = Some (''s3cret'',
             ''POST'' @ newline @ ''008ee33a9d58b51cfeb425b0959121c9'' @ newline
               @ ''2024-01-01T00:00:00.000Z'', None)"
proof -
  have run: "CheckHeader sample_manager ''my_access_key''
         (sample_post\<lparr>Body := Some (Reader bs), ContentLength := 64\<rparr>) sample_now
     = Some (''s3cret'',
             ''POST'' @ newline @ hex_EncodeToString (md5_Sum bs) @ newline
               @ ''2024-01-01T00:00:00.000Z'', None)" for bs
    by (simp add: CheckHeader_def CheckHeader_run_def Let_def sample_post_def sample_manager_def
        sample_now_def Header_Get_def parse_sample_date stale_iff fifteen_minutes)
  from run [of collision_a] run [of collision_b] collision_differs(1) show ?thesis
    by (simp add: md5_collision)
qed

text \<open>
  Determinism is about two requests with unread bodies. A second check of one request
  is another matter: when the first check accepted it and read its body,
  the second check finds the body drained and signs the digest of the empty body.
\<close>

theorem second_check_reads_drained_body:
  assumes "CheckHeader m access req now = Some (s, d, None)"
    and "ContentLength req \<noteq> 0"
  shows "CheckHeader m access (CheckHeader_leaves m access req now) now =
           Some (Secret m,
                 Method req @ newline @ hex_EncodeToString (md5_Sum []) @ newline
                   @ Header_Get (Header req) ''Date'',
                 None)"
proof -
  from CheckHeader_accepts [OF assms(1)] assms(2) obtain rc b
    where k: "access = ''my_access_key''" and ok: "structural_ok req now"
      and rc: "Body req = Some rc" "ioutil_ReadAll rc = (b, None)"
    by auto
  from ok obtain date where h: "Header_Get (Header req) ''Date'' \<noteq> ''''"
      and p: "time_Parse (Header_Get (Header req) ''Date'') = Some date"
      and f: "now - date \<le> 15 * Minute"
    by (auto simp: structural_ok_def timestamp_ok_iff)
  from rc have dr: "drain rc = Reader []"
    by (cases rc) simp_all
  from k h p f rc assms(2) have "ReadAll \<in> set (CheckHeader_calls m access req now)"
    by (simp add: CheckHeader_calls_def CheckHeader_run_def Let_def stale_iff)
  then have "CheckHeader_leaves m access req now = req\<lparr>Body := Some (Reader [])\<rparr>"
    using rc dr by (simp add: CheckHeader_leaves_def)
  with k h p f assms(2) show ?thesis
    by (simp add: CheckHeader_def CheckHeader_run_def Let_def stale_iff)
qed

text \<open>The sample \<^verbatim>\<open>POST\<close>, checked twice.\<close>

theorem second_check_reads_drained_body_witness:
  "CheckHeader sample_manager ''my_access_key'' sample_post sample_now
     = Some (''s3cret'',
             ''POST'' @ newline @ ''5d41402abc4b2a76b9719d911017c592'' @ newline
               @ ''2024-01-01T00:00:00.000Z'', None)
   \<and> CheckHeader sample_manager ''my_access_key''
         (CheckHeader_leaves sample_manager ''my_access_key'' sample_post sample_now) sample_now
     = Some (''s3cret'',
             ''POST'' @ newline @ ''d41d8cd98f00b204e9800998ecf8427e'' @ newline
               @ ''2024-01-01T00:00:00.000Z'', None)"
proof -
  have r1: "CheckHeader sample_manager ''my_access_key'' sample_post sample_now
     = Some (''s3cret'',
             ''POST'' @ newline @ ''5d41402abc4b2a76b9719d911017c592'' @ newline
               @ ''2024-01-01T00:00:00.000Z'', None)"
    by (simp add: CheckHeader_def CheckHeader_run_def Let_def sample_date_headers
        parse_sample_date stale_iff fifteen_minutes sample_now_def)
       (simp add: sample_post_def sample_manager_def md5_hello Header_Get_def)
  have cl: "ContentLength sample_post \<noteq> 0"
    by (simp add: sample_post_def)
  from second_check_reads_drained_body [OF r1 cl] r1 show ?thesis
    by (simp add: md5_test_suite(1) sample_date_headers) (simp add: sample_post_def sample_manager_def)
qed

subsection \<open>Changing the body\<close>

text \<open>
  What a change of the body does to the signing string. Take a request with a readable
  body that passes the timestamp rules, the access key \<^verbatim>\<open>my_access_key\<close>, and the same
  request with another body. When the content length is not zero, both are accepted,
  and their signing strings are equal exactly when the MD5 digests of the two bodies
  are equal. When the content length is zero the body is not read, and the result does
  not depend on it. Whether a change of a single byte can leave the digest unchanged is
  a question about MD5 that is not settled here.
\<close>

theorem body_change_and_digest:
  assumes "timestamp_ok r now"
    and "Body r = Some (Reader bs)"
  shows "(ContentLength r \<noteq> 0 \<longrightarrow>
            (\<exists>s s'. CheckHeader m ''my_access_key'' r now = Some (Secret m, s, None)
                  \<and> CheckHeader m ''my_access_key'' (r\<lparr>Body := Some (Reader bs')\<rparr>) now
                      = Some (Secret m, s', None)
                  \<and> (s = s' \<longleftrightarrow> md5_Sum bs = md5_Sum bs')))
       \<and> (ContentLength r = 0 \<longrightarrow>
            CheckHeader m ''my_access_key'' (r\<lparr>Body := Some (Reader bs')\<rparr>) now
              = CheckHeader m ''my_access_key'' r now)"
proof -
  from assms(1) obtain date
    where h: "Header_Get (Header r) ''Date'' \<noteq> ''''"
      and p: "time_Parse (Header_Get (Header r) ''Date'') = Some date"
      and f: "now - date \<le> 15 * Minute"
    by (auto simp: timestamp_ok_iff)
  show ?thesis
  proof (intro conjI impI)
    assume cl: "ContentLength r \<noteq> 0"
    let ?s = "\<lambda>b. Method r @ newline @ hex_EncodeToString (md5_Sum b) @ newline
                  @ Header_Get (Header r) ''Date''"
    from cl h p f assms(2)
    have 1: "CheckHeader m ''my_access_key'' r now = Some (Secret m, ?s bs, None)"
      by (simp add: CheckHeader_def CheckHeader_run_def Let_def stale_iff)
    from cl h p f
    have 2: "CheckHeader m ''my_access_key'' (r\<lparr>Body := Some (Reader bs')\<rparr>) now
               = Some (Secret m, ?s bs', None)"
      by (simp add: CheckHeader_def CheckHeader_run_def Let_def stale_iff)
    have 3: "?s bs = ?s bs' \<longleftrightarrow> md5_Sum bs = md5_Sum bs'"
      by (rule signing_string_eq_iff)
    from 1 2 3
    show "\<exists>s s'. CheckHeader m ''my_access_key'' r now = Some (Secret m, s, None)
                  \<and> CheckHeader m ''my_access_key'' (r\<lparr>Body := Some (Reader bs')\<rparr>) now
                      = Some (Secret m, s', None)
                  \<and> (s = s' \<longleftrightarrow> md5_Sum bs = md5_Sum bs')"
      by blast
  next
    assume "ContentLength r = 0"
    with h p f show "CheckHeader m ''my_access_key'' (r\<lparr>Body := Some (Reader bs')\<rparr>) now
                 = CheckHeader m ''my_access_key'' r now"
      by (simp add: CheckHeader_def CheckHeader_run_def Let_def stale_iff)
  qed
qed

text \<open>
  With a content length of zero, the bodies \<^verbatim>\<open>hello\<close> and \<^verbatim>\<open>jello\<close>, one byte apart,
  give the same signing string.
\<close>

theorem body_ignored_at_zero_content_length:
  "single_byte_change [0x68, 0x65, 0x6c, 0x6c, 0x6f] [0x6a, 0x65, 0x6c, 0x6c, 0x6f]
   \<and> CheckHeader sample_manager ''my_access_key''
         (sample_post\<lparr>ContentLength := 0\<rparr>) sample_now
       = Some (''s3cret'', ''POST'' @ newline @ newline @ ''2024-01-01T00:00:00.000Z'', None)
   \<and> CheckHeader sample_manager ''my_access_key''
         (sample_post\<lparr>ContentLength := 0,
                        Body := Some (Reader [0x6a, 0x65, 0x6c, 0x6c, 0x6f])\<rparr>) sample_now
       = Some (''s3cret'', ''POST'' @ newline @ newline @ ''2024-01-01T00:00:00.000Z'', None)"
  by (simp add: single_byte_change_def CheckHeader_def CheckHeader_run_def Let_def
      sample_post_def sample_manager_def sample_now_def Header_Get_def parse_sample_date
      stale_iff fifteen_minutes)

text \<open>
  With the content length declared, the same two bodies give different signing strings,
  and the theorem yields that their digests differ.
\<close>

theorem body_change_and_digest_witness:
  "single_byte_change [0x68, 0x65, 0x6c, 0x6c, 0x6f] [0x6a, 0x65, 0x6c, 0x6c, 0x6f]
   \<and> CheckHeader sample_manager ''my_access_key'' sample_post sample_now
       = Some (''s3cret'',
               ''POST'' @ newline @ ''5d41402abc4b2a76b9719d911017c592'' @ newline
                 @ ''2024-01-01T00:00:00.000Z'', None)
   \<and> CheckHeader sample_manager ''my_access_key''
         (sample_post\<lparr>Body := Some (Reader [0x6a, 0x65, 0x6c, 0x6c, 0x6f])\<rparr>) sample_now
       = Some (''s3cret'',
               ''POST'' @ newline @ ''7aa6991a62353dd2761280cf592542dc'' @ newline
                 @ ''2024-01-01T00:00:00.000Z'', None)
   \<and> md5_Sum [0x68, 0x65, 0x6c, 0x6c, 0x6f] \<noteq> md5_Sum [0x6a, 0x65, 0x6c, 0x6c, 0x6f]"
proof -
  let ?hello = "[0x68, 0x65, 0x6c, 0x6c, 0x6f] :: byte list"
  let ?jello = "[0x6a, 0x65, 0x6c, 0x6c, 0x6f] :: byte list"
  have b: "Body sample_post = Some (Reader ?hello)" and cl: "ContentLength sample_post \<noteq> 0"
    by (simp_all add: sample_post_def)
  have r1: "CheckHeader sample_manager ''my_access_key'' sample_post sample_now
       = Some (''s3cret'',
               ''POST'' @ newline @ ''5d41402abc4b2a76b9719d911017c592'' @ newline
                 @ ''2024-01-01T00:00:00.000Z'', None)"
    by (simp add: CheckHeader_def CheckHeader_run_def Let_def sample_date_headers
        parse_sample_date stale_iff fifteen_minutes sample_now_def b cl md5_hello)
       (simp add: sample_post_def sample_manager_def)
  have r2: "CheckHeader sample_manager ''my_access_key''
         (sample_post\<lparr>Body := Some (Reader ?jello)\<rparr>) sample_now
       = Some (''s3cret'',
               ''POST'' @ newline @ ''7aa6991a62353dd2761280cf592542dc'' @ newline
                 @ ''2024-01-01T00:00:00.000Z'', None)"
    by (simp add: CheckHeader_def CheckHeader_run_def Let_def sample_date_headers
        parse_sample_date stale_iff fifteen_minutes sample_now_def cl md5_jello)
       (simp add: sample_post_def sample_manager_def)
  have sb: "single_byte_change ?hello ?jello"
    by (simp add: single_byte_change_def)
  from body_change_and_digest [OF sample_timestamp_ok(1) b, of sample_manager ?jello] cl r1 r2
  have "md5_Sum ?hello \<noteq> md5_Sum ?jello"
    by (auto simp: newline_def)
  with sb r1 r2 show ?thesis by simp
qed

end
